theory Spec2Isabelle
  imports Complex_Main
begin

section \<open>JavaScript values\<close>

text \<open>
  The values that travel through the helper: ids, field values, filter values and the
  columns of a record. A JavaScript number is modelled by the integer it denotes. This is
  exact for safe integers only (\<open>safe_integer\<close> below: at most \<open>2^53 - 1\<close> in absolute
  value), where the arithmetic of doubles on integers is exact; beyond them the code
  rounds and the model does not, so a statement about the numbers of \<open>getAll\<close> carries the
  hypothesis that they are safe integers. The decimal string of an integer (digits, with
  an optional minus sign), as a query string delivers it, behaves in \<open>-\<close>, \<open>*\<close>, \<open>/\<close> and
  \<open>parseInt\<close> as the number it denotes.
  An object is the list of its own enumerable string keys with their values, in the
  order \<open>Object.keys\<close> lists them; the keys of an object are distinct.
\<close>

datatype jsval = JUndefined | JNull | JBool bool | JNum int | JStr string

type_synonym obj = "(string \<times> jsval) list"

type_synonym row = obj

definition Object_keys :: "obj \<Rightarrow> string list" where
  "Object_keys ob = map fst ob"

text \<open>\<open>ob[key]\<close>: the value of the property, \<open>undefined\<close> when the object has none.\<close>

definition obj_get :: "obj \<Rightarrow> string \<Rightarrow> jsval" where
  "obj_get ob key = (case map_of ob key of None \<Rightarrow> JUndefined | Some v \<Rightarrow> v)"

text \<open>
  \<open>ob[key] = v\<close>, for an object with any kind of key: an existing property keeps its
  place and takes the new value, a new property goes last.
\<close>

fun prop_set :: "('k \<times> 'v) list \<Rightarrow> 'k \<Rightarrow> 'v \<Rightarrow> ('k \<times> 'v) list" where
  "prop_set [] key v = [(key, v)]"
| "prop_set ((k, w) # ob) key v =
     (if k = key then (k, v) # ob else (k, w) # prop_set ob key v)"

text \<open>The decimal digits of a natural number, most significant first.\<close>

fun digits :: "nat \<Rightarrow> string" where
  "digits n =
     (if n < 10 then [''0123456789'' ! n]
      else digits (n div 10) @ [''0123456789'' ! (n mod 10)])"

definition String_of_int :: "int \<Rightarrow> string" where
  "String_of_int n = (if n < 0 then ''-'' @ digits (nat (- n)) else digits (nat n))"

text \<open>The string a template literal \<open>`${v}`\<close> puts in place of the value.\<close>

fun ToString :: "jsval \<Rightarrow> string" where
  "ToString JUndefined = ''undefined''"
| "ToString JNull = ''null''"
| "ToString (JBool b) = (if b then ''true'' else ''false'')"
| "ToString (JNum n) = String_of_int n"
| "ToString (JStr s) = s"

text \<open>
  The result of a division and of \<open>Math.ceil\<close>: a JavaScript number that need not be
  an integer, and is \<open>Infinity\<close> or \<open>NaN\<close> when the divisor is zero. The two zeros of
  JavaScript, equal under \<open>===\<close>, are one value here.
\<close>

datatype jsnum = NaN | PosInfinity | NegInfinity | Finite rat

definition js_divide :: "int \<Rightarrow> int \<Rightarrow> jsnum" where
  "js_divide a b =
     (if b = 0 then (if 0 < a then PosInfinity else if a < 0 then NegInfinity else NaN)
      else Finite (of_int a / of_int b))"

fun Math_ceil :: "jsnum \<Rightarrow> jsnum" where
  "Math_ceil (Finite q) = Finite (of_int \<lceil>q\<rceil>)"
| "Math_ceil NaN = NaN"
| "Math_ceil PosInfinity = PosInfinity"
| "Math_ceil NegInfinity = NegInfinity"

text \<open>\<open>Number.isSafeInteger\<close>: the integers that doubles hold without rounding.\<close>

definition safe_integer :: "int \<Rightarrow> bool" where
  "safe_integer n = (- (2 ^ 53 - 1) \<le> n \<and> n \<le> 2 ^ 53 - 1)"

text \<open>\<open>parseInt\<close> of a safe integer is that integer.\<close>

definition parseInt :: "int \<Rightarrow> int" where
  "parseInt n = n"

section \<open>Errors, store calls and the trace of a call\<close>

text \<open>
  The errors a helper call can end with: the \<open>Error\<close> objects the helper throws itself,
  the \<open>TypeError\<close> the language raises on a property read of \<open>undefined\<close>, and a
  rejection of the store (Sequelize), each with its message.
\<close>

datatype js_error = Error string | TypeError string | StoreError string

fun message :: "js_error \<Rightarrow> string" where
  "message (Error m) = m"
| "message (TypeError m) = m"
| "message (StoreError m) = m"

text \<open>An awaited store call resolves with a value (\<open>Inr\<close>) or rejects with a message.\<close>

type_synonym 'a response = "string + 'a"

text \<open>
  A \<open>where\<close> object. Its keys are attribute names (strings) or the symbol \<open>Op.or\<close>; a
  string and a symbol are never the same key. Under an attribute name stands the value to
  compare with, under \<open>Op.or\<close> the array of the alternatives, each an object
  \<open>{ [attr]: { [Op.like]: pattern } }\<close>. Sequelize reads the properties of one \<open>where\<close>
  object as a conjunction. The list holds the own properties of the object in the order
  the helper sets them; the prototype of the object is not part of the model.
\<close>

datatype cond = Op_like string

datatype where_key = Op_or | Key string

datatype where_value = Conditions "(string \<times> cond) list" | Value jsval

type_synonym where_clause = "(where_key \<times> where_value) list"

text \<open>
  \<open>where[key] = v\<close> with a string key, on the plain object that \<open>const where = {}\<close>
  creates. The key \<open>__proto__\<close> reaches the setter that \<open>Object.prototype\<close> has under this
  name: it adds no property (it replaces the prototype when \<open>v\<close> is \<open>null\<close> or an object and
  does nothing for any other value). Every other key sets the property of that name.
\<close>

definition where_assign :: "where_clause \<Rightarrow> string \<Rightarrow> jsval \<Rightarrow> where_clause" where
  "where_assign w key v = (if key = ''__proto__'' then w else prop_set w (Key key) (Value v))"

record find_options =
  fc_where :: where_clause
  fc_limit :: int
  fc_offset :: int
  fc_order :: "(string \<times> string) list"
  fc_paranoid :: bool

record findAll_options =
  fa_where :: where_clause
  fa_paranoid :: bool

record update_options =
  up_where :: where_clause
  up_returning :: bool
  up_transaction :: nat
  up_paranoid :: bool

record destroy_options =
  de_where :: where_clause

record create_options =
  cr_transaction :: nat

record count_result =
  rows :: "row list"
  count :: int

text \<open>
  Everything a helper call does to the outside, in order: the calls on the Sequelize
  instance and its transaction, the calls on the model with their options, and the lines
  given to the logger.
\<close>

datatype event =
    Transaction
  | Commit nat
  | Rollback nat
  | FindAndCountAll find_options
  | FindAll findAll_options
  | Update obj update_options
  | Destroy destroy_options
  | Create obj create_options
  | LogInfo string
  | LogError string

text \<open>
  The Sequelize library is not part of the repository: the model and the Sequelize
  instance are parameters, records of what each of their calls answers. A theorem about a
  helper holds for every such answer, that is for every behaviour of the store.
\<close>

datatype data_type =
    DataTypes_STRING | DataTypes_CHAR | DataTypes_TEXT | DataTypes_INTEGER
  | DataTypes_BIGINT | DataTypes_FLOAT | DataTypes_BOOLEAN | DataTypes_DATE | DataTypes_ENUM

text \<open>
  \<open>type instanceof DataTypes.STRING\<close>: in Sequelize, \<open>CHAR\<close> extends \<open>STRING\<close>; the
  other types (also \<open>TEXT\<close>) extend \<open>ABSTRACT\<close> or \<open>NUMBER\<close>.
\<close>

fun instanceof_STRING :: "data_type \<Rightarrow> bool" where
  "instanceof_STRING DataTypes_STRING = True"
| "instanceof_STRING DataTypes_CHAR = True"
| "instanceof_STRING _ = False"

record model =
  name :: string
  rawAttributes :: "(string \<times> data_type) list"
  findAndCountAll :: "find_options \<Rightarrow> count_result response"
  findAll :: "findAll_options \<Rightarrow> row list response"
  model_update :: "obj \<Rightarrow> update_options \<Rightarrow> (int \<times> row list option) response"
  destroy :: "destroy_options \<Rightarrow> int response"
  model_create :: "obj \<Rightarrow> create_options \<Rightarrow> row response"

record sequelize =
  transaction :: "nat response"
  commit :: "nat \<Rightarrow> unit response"
  rollback :: "nat \<Rightarrow> unit response"

text \<open>
  A computation of the helper yields the trace of what it did and how it ended: with a
  thrown error (\<open>Inl\<close>) or a returned value (\<open>Inr\<close>).
\<close>

type_synonym 'a io = "event list \<times> (js_error + 'a)"

definition returns :: "'a \<Rightarrow> 'a io" where
  "returns v = ([], Inr v)"

definition throw :: "js_error \<Rightarrow> 'a io" where
  "throw e = ([], Inl e)"

text \<open>\<open>await call\<close>: the call is issued; a rejection is thrown.\<close>

definition await :: "event \<Rightarrow> 'a response \<Rightarrow> 'a io" where
  "await ev r = ([ev], case r of Inl m \<Rightarrow> Inl (StoreError m) | Inr v \<Rightarrow> Inr v)"

text \<open>Sequencing: a thrown error skips the rest.\<close>

definition then_do :: "'a io \<Rightarrow> ('a \<Rightarrow> 'b io) \<Rightarrow> 'b io" where
  "then_do m k =
     (case m of
        (tr, Inl e) \<Rightarrow> (tr, Inl e)
      | (tr, Inr v) \<Rightarrow> (case k v of (tr', r) \<Rightarrow> (tr @ tr', r)))"

text \<open>\<open>try { m } catch (error) { h error }\<close>.\<close>

definition try_catch :: "'a io \<Rightarrow> (js_error \<Rightarrow> 'a io) \<Rightarrow> 'a io" where
  "try_catch m h =
     (case m of
        (tr, Inl e) \<Rightarrow> (case h e of (tr', r) \<Rightarrow> (tr @ tr', r))
      | (tr, Inr v) \<Rightarrow> (tr, Inr v))"

text \<open>
  Modelled from the spec: the logger (\<open>../middleware/logger\<close>) is not among the sources;
  errors are "surfaced as thrown errors and logged", so a call of the logger records its
  line and returns.
\<close>

definition logger_info :: "string \<Rightarrow> unit io" where
  "logger_info line = ([LogInfo line], Inr ())"

definition logger_error :: "string \<Rightarrow> unit io" where
  "logger_error line = ([LogError line], Inr ())"

section \<open>The helper \<open>REST_API\<close>\<close>

subsection \<open>\<open>getDataListByField\<close>\<close>

definition getDataListByField :: "model \<Rightarrow> string \<Rightarrow> jsval \<Rightarrow> row list io" where
  "getDataListByField model fieldName fieldValue =
     try_catch
       (then_do
          (await
             (FindAll \<lparr>fa_where = [(Key fieldName, Value fieldValue)],
                       fa_paranoid = True\<rparr>)
             (findAll model
                \<lparr>fa_where = [(Key fieldName, Value fieldValue)],
                 fa_paranoid = True\<rparr>))
          (\<lambda>result.
             if length result = 0
             then throw (Error (name model @ '' with '' @ fieldName @ '' ''
                                @ ToString fieldValue @ '' not found''))
             else then_do
                    (logger_info (''Read record(s) from '' @ name model @ '' with ''
                                  @ fieldName @ '' '' @ ToString fieldValue))
                    (\<lambda>_. returns result)))
       (\<lambda>error.
          then_do
            (logger_error (''Error reading '' @ name model @ '': '' @ message error))
            (\<lambda>_. throw error))"

subsection \<open>\<open>getAll\<close>\<close>

text \<open>
  The query object, by the properties \<open>getAll\<close> destructures; \<open>None\<close> is a property
  that is absent (\<open>undefined\<close>). \<open>q_page\<close> and \<open>q_limit\<close> are integers (numbers, or the
  decimal strings of a query string), \<open>q_filter\<close> is an object.
\<close>

record query =
  q_page :: "int option"
  q_limit :: "int option"
  q_search :: "string option"
  q_filter :: "obj option"
  q_sort :: "string option"

record page_result =
  result_rows :: "row list"
  result_count :: int
  totalPages :: jsnum
  currentPage :: int

text \<open>\<open>if (s)\<close> on a string or \<open>undefined\<close>: the empty string is falsy, as \<open>undefined\<close> is.\<close>

fun truthy :: "string option \<Rightarrow> bool" where
  "truthy None = False"
| "truthy (Some s) = (s \<noteq> [])"

text \<open>\<open>s.split(c)\<close>: the pieces of \<open>s\<close> between the occurrences of \<open>c\<close>, at least one.\<close>

fun split :: "char \<Rightarrow> string \<Rightarrow> string list" where
  "split c [] = [[]]"
| "split c (x # xs) =
     (if x = c then [] # split c xs
      else (case split c xs of [] \<Rightarrow> [[x]] | w # ws \<Rightarrow> (x # w) # ws))"

text \<open>
  \<open>toUpperCase\<close>, modelled on ASCII: the letters \<open>a\<close> to \<open>z\<close> become \<open>A\<close> to \<open>Z\<close>,
  every other character of ASCII stays.
\<close>

definition upper_table :: "(char \<times> char) list" where
  "upper_table = zip ''abcdefghijklmnopqrstuvwxyz'' ''ABCDEFGHIJKLMNOPQRSTUVWXYZ''"

definition toUpperCase :: "string \<Rightarrow> string" where
  "toUpperCase s = map (\<lambda>c. case map_of upper_table c of None \<Rightarrow> c | Some u \<Rightarrow> u) s"

text \<open>Lines 16 and 19 to 33: the \<open>where\<close> object, from \<open>search\<close> and \<open>filter\<close>.\<close>

definition search_conditions :: "model \<Rightarrow> string \<Rightarrow> (string \<times> cond) list" where
  "search_conditions model search =
     map (\<lambda>attr. (attr, Op_like (''%'' @ search @ ''%'')))
       (filter
          (\<lambda>attr. case map_of (rawAttributes model) attr of
                     None \<Rightarrow> False
                   | Some ty \<Rightarrow> instanceof_STRING ty)
          (map fst (rawAttributes model)))"

definition getAll_where :: "model \<Rightarrow> query \<Rightarrow> where_clause" where
  "getAll_where model query =
     (let where0 = [];
          where1 =
            (if truthy (q_search query)
             then prop_set where0 Op_or
                    (Conditions (search_conditions model (the (q_search query))))
             else where0)
      in case q_filter query of
           None \<Rightarrow> where1
         | Some filter_obj \<Rightarrow>
             fold (\<lambda>key w. where_assign w key (obj_get filter_obj key))
               (Object_keys filter_obj) where1)"

text \<open>
  Lines 17 and 35 to 38: the \<open>order\<close> array. \<open>direction\<close> is \<open>undefined\<close> when the split
  yields one piece, and \<open>direction.toUpperCase()\<close> then raises a \<open>TypeError\<close>.
\<close>

definition getAll_order :: "query \<Rightarrow> (string \<times> string) list io" where
  "getAll_order query =
     (if truthy (q_sort query)
      then (case split (CHR '':'') (the (q_sort query)) of
              field # direction # _ \<Rightarrow> returns [(field, toUpperCase direction)]
            | _ \<Rightarrow>
                throw (TypeError
                  ''Cannot read properties of undefined (reading 'toUpperCase')''))
      else returns [])"

text \<open>
  \<open>JSON.stringify(query)\<close> only feeds the log line; the text it gives for the query
  object is a parameter.
\<close>

definition getAll :: "(query \<Rightarrow> string) \<Rightarrow> model \<Rightarrow> query \<Rightarrow> page_result io" where
  "getAll JSON_stringify model query =
     try_catch
       (let page = (case q_page query of None \<Rightarrow> 1 | Some p \<Rightarrow> p);
            limit = (case q_limit query of None \<Rightarrow> 10 | Some l \<Rightarrow> l);
            offset = (page - 1) * limit;
            where_obj = getAll_where model query
        in then_do (getAll_order query)
             (\<lambda>order.
                then_do
                  (await
                     (FindAndCountAll
                        \<lparr>fc_where = where_obj, fc_limit = parseInt limit,
                         fc_offset = parseInt offset, fc_order = order,
                         fc_paranoid = True\<rparr>)
                     (findAndCountAll model
                        \<lparr>fc_where = where_obj, fc_limit = parseInt limit,
                         fc_offset = parseInt offset, fc_order = order,
                         fc_paranoid = True\<rparr>))
                  (\<lambda>result.
                     then_do
                       (logger_info (''Read records from '' @ name model @ '' with query ''
                                     @ JSON_stringify query))
                       (\<lambda>_. returns
                              \<lparr>result_rows = rows result, result_count = count result,
                               totalPages = Math_ceil (js_divide (count result) limit),
                               currentPage = parseInt page\<rparr>))))
       (\<lambda>error.
          then_do
            (logger_error (''Error reading records from '' @ name model @ '': ''
                           @ message error))
            (\<lambda>_. throw error))"

subsection \<open>\<open>update\<close>, \<open>delete\<close>, \<open>create\<close>\<close>

text \<open>
  \<open>data\<close> is the payload object, \<open>None\<close> when it is missing. \<open>model.update\<close> resolves
  with the number of affected rows and, where the dialect supports \<open>returning\<close>, the
  affected rows; \<open>updatedRows[0]\<close> is \<open>undefined\<close> (\<open>None\<close>) on an empty array and raises
  a \<open>TypeError\<close> when there is no array.
\<close>

definition update :: "sequelize \<Rightarrow> model \<Rightarrow> jsval \<Rightarrow> obj option \<Rightarrow> row option io" where
  "update sequelize model id' data =
     then_do (await Transaction (transaction sequelize))
       (\<lambda>tx.
          try_catch
            (case data of
               None \<Rightarrow> throw (Error ''Update data cannot be empty'')
             | Some d \<Rightarrow>
                 if length (Object_keys d) = 0
                 then throw (Error ''Update data cannot be empty'')
                 else
                   then_do
                     (await
                        (Update d
                           \<lparr>up_where = [(Key ''id'', Value id')],
                            up_returning = True, up_transaction = tx, up_paranoid = True\<rparr>)
                        (model_update model d
                           \<lparr>up_where = [(Key ''id'', Value id')],
                            up_returning = True, up_transaction = tx, up_paranoid = True\<rparr>))
                     (\<lambda>(updatedRowsCount, updatedRows).
                        if updatedRowsCount = 0
                        then throw (Error (name model @ '' with id '' @ ToString id'
                                           @ '' not found or no changes applied''))
                        else
                          then_do (await (Commit tx) (commit sequelize tx))
                            (\<lambda>_. then_do
                                   (logger_info (''Updated record in '' @ name model
                                                 @ '' with id '' @ ToString id'))
                                   (\<lambda>_. case updatedRows of
                                          None \<Rightarrow>
                                            throw (TypeError
                                              ''Cannot read properties of undefined (reading '0')'')
                                        | Some [] \<Rightarrow> returns None
                                        | Some (r # _) \<Rightarrow> returns (Some r)))))
            (\<lambda>error.
               then_do (await (Rollback tx) (rollback sequelize tx))
                 (\<lambda>_. then_do
                        (logger_error (''Error updating record in '' @ name model @ '': ''
                                       @ message error))
                        (\<lambda>_. throw error))))"

definition delete :: "model \<Rightarrow> jsval \<Rightarrow> string io" where
  "delete model id' =
     try_catch
       (then_do
          (await (Destroy \<lparr>de_where = [(Key ''id'', Value id')]\<rparr>)
             (destroy model \<lparr>de_where = [(Key ''id'', Value id')]\<rparr>))
          (\<lambda>result.
             if result = 0
             then throw (Error (name model @ '' with id '' @ ToString id'
                                @ '' not found or already deleted''))
             else then_do
                    (logger_info (''Soft deleted record from '' @ name model @ '' with id ''
                                  @ ToString id'))
                    (\<lambda>_. returns ''deleted'')))
       (\<lambda>error.
          then_do
            (logger_error (''Error soft deleting record from '' @ name model @ '': ''
                           @ message error))
            (\<lambda>_. throw error))"

definition create :: "sequelize \<Rightarrow> model \<Rightarrow> obj option \<Rightarrow> row io" where
  "create sequelize model data =
     then_do (await Transaction (transaction sequelize))
       (\<lambda>tx.
          try_catch
            (case data of
               None \<Rightarrow> throw (Error ''Data cannot be empty'')
             | Some d \<Rightarrow>
                 if length (Object_keys d) = 0
                 then throw (Error ''Data cannot be empty'')
                 else
                   then_do
                     (await (Create d \<lparr>cr_transaction = tx\<rparr>)
                        (model_create model d \<lparr>cr_transaction = tx\<rparr>))
                     (\<lambda>result.
                        then_do (await (Commit tx) (commit sequelize tx))
                          (\<lambda>_. then_do
                                 (logger_info (''Created record in '' @ name model
                                               @ '' with id ''
                                               @ ToString (obj_get result ''id'')))
                                 (\<lambda>_. returns result))))
            (\<lambda>error.
               then_do (await (Rollback tx) (rollback sequelize tx))
                 (\<lambda>_. then_do
                        (logger_error (''Error creating record in '' @ name model @ '': ''
                                       @ message error))
                        (\<lambda>_. throw error))))"

text \<open>The options object \<open>update\<close> passes to \<open>model.update\<close> (lines 110 to 113).\<close>

abbreviation update_call_options :: "nat \<Rightarrow> jsval \<Rightarrow> update_options" where
  "update_call_options tx id' \<equiv>
     \<lparr>up_where = [(Key ''id'', Value id')], up_returning = True, up_transaction = tx,
      up_paranoid = True\<rparr>"

section \<open>The routes of the job-updates resource\<close>

datatype http_method = GET | POST | PUT | DELETE

datatype action =
    getAllJobUpdates | getJobUpdateById | createJobUpdate | updateJobUpdate
  | deleteJobUpdate | getLatestJobs | getAdmitCards | getAnswerKeys | getResults

text \<open>The registrations of \<open>jobupdateRoute.js\<close>, in the order of the file.\<close>

definition router :: "(http_method \<times> string \<times> action) list" where
  "router =
     [(GET, ''/job-updates'', getAllJobUpdates),
      (GET, ''/job-updates/:id'', getJobUpdateById),
      (POST, ''/job-updates'', createJobUpdate),
      (PUT, ''/job-updates/:id'', updateJobUpdate),
      (DELETE, ''/job-updates/:id'', deleteJobUpdate),
      (GET, ''/latest-jobs'', getLatestJobs),
      (GET, ''/admit-cards'', getAdmitCards),
      (GET, ''/answer-keys'', getAnswerKeys),
      (GET, ''/results'', getResults)]"

text \<open>The actions registered for a method and a path pattern.\<close>

definition handlers :: "http_method \<Rightarrow> string \<Rightarrow> action list" where
  "handlers m p = map (\<lambda>(_, _, a). a) (filter (\<lambda>(m', p', _). m' = m \<and> p' = p) router)"

section \<open>Example stores\<close>

text \<open>
  A small store to run the helper on: a table of two job updates, selected by the
  attribute values of a \<open>where\<close> object.
\<close>

definition example_rows :: "row list" where
  "example_rows =
     [[(''id'', JNum 1), (''title'', JStr ''SSC CGL''), (''category'', JStr ''latest-jobs'')],
      [(''id'', JNum 2), (''title'', JStr ''UPSC NDA''), (''category'', JStr ''results'')]]"

definition selected :: "where_clause \<Rightarrow> row list" where
  "selected w =
     filter
       (\<lambda>r. list_all
              (\<lambda>kv. case kv of (Key a, Value x) \<Rightarrow> obj_get r a = x | _ \<Rightarrow> True) w)
       example_rows"

definition example_model :: model where
  "example_model =
     \<lparr>name = ''JobUpdate'',
      rawAttributes =
        [(''id'', DataTypes_INTEGER), (''title'', DataTypes_STRING),
         (''description'', DataTypes_TEXT), (''category'', DataTypes_STRING),
         (''isActive'', DataTypes_BOOLEAN)],
      findAndCountAll =
        (\<lambda>opts. Inr \<lparr>rows = take (nat (fc_limit opts))
                                (drop (nat (fc_offset opts)) (selected (fc_where opts))),
                       count = int (length (selected (fc_where opts)))\<rparr>),
      findAll = (\<lambda>opts. Inr (selected (fa_where opts))),
      model_update =
        (\<lambda>d opts. Inr (int (length (selected (up_where opts))),
                         Some (map (\<lambda>r. fold (\<lambda>(k, v) r'. prop_set r' k v) d r)
                                 (selected (up_where opts))))),
      destroy = (\<lambda>opts. Inr (int (length (selected (de_where opts))))),
      model_create = (\<lambda>d opts. Inr ((''id'', JNum 3) # d))\<rparr>"

text \<open>The same store behind a dialect that returns no rows from an update.\<close>

definition example_model_no_returning :: model where
  "example_model_no_returning =
     example_model
       \<lparr>model_update := (\<lambda>d opts. Inr (int (length (selected (up_where opts))), None))\<rparr>"

definition example_sequelize :: sequelize where
  "example_sequelize =
     \<lparr>transaction = Inr 1, commit = (\<lambda>_. Inr ()), rollback = (\<lambda>_. Inr ())\<rparr>"

text \<open>A database connection that opens a transaction and then fails to roll it back.\<close>

definition example_sequelize_rollback_fails :: sequelize where
  "example_sequelize_rollback_fails =
     \<lparr>transaction = Inr 1, commit = (\<lambda>_. Inr ()),
      rollback = (\<lambda>_. Inl ''connection lost'')\<rparr>"

text \<open>The empty query object \<open>{}\<close>, and the text \<open>JSON.stringify\<close> gives for it.\<close>

definition empty_query :: query where
  "empty_query =
     \<lparr>q_page = None, q_limit = None, q_search = None, q_filter = None, q_sort = None\<rparr>"

definition example_stringify :: "query \<Rightarrow> string" where
  "example_stringify q = ''{}''"

section \<open>Auxiliary facts\<close>

lemmas io_defs = returns_def throw_def await_def then_do_def try_catch_def
  logger_info_def logger_error_def

lemma map_of_prop_set: "map_of (prop_set w k v) = (map_of w)(k \<mapsto> v)"
  by (induction w) (auto simp: fun_eq_iff)

lemma keys_prop_set:
  "map fst (prop_set w k v) = (if k \<in> set (map fst w) then map fst w else map fst w @ [k])"
  by (induction w) (auto simp: rev_image_eqI)

lemma distinct_prop_set: "distinct (map fst w) \<Longrightarrow> distinct (map fst (prop_set w k v))"
  by (simp add: keys_prop_set)

lemma prop_set_new: "k \<notin> fst ` set w \<Longrightarrow> prop_set w k v = w @ [(k, v)]"
  by (induction w) auto

lemma map_of_fold_filter:
  "map_of (fold (\<lambda>key w. where_assign w key (obj_get f key)) ks w) x =
     (case x of
        Op_or \<Rightarrow> map_of w Op_or
      | Key key \<Rightarrow>
          if key \<in> set ks \<and> key \<noteq> ''__proto__'' then Some (Value (obj_get f key))
          else map_of w x)"
  by (induction ks arbitrary: w)
     (auto simp: where_assign_def map_of_prop_set split: where_key.splits)

lemma distinct_fold_filter:
  "distinct (map fst w) \<Longrightarrow>
   distinct (map fst (fold (\<lambda>key w. where_assign w key (obj_get f key)) ks w))"
  by (induction ks arbitrary: w) (auto simp: where_assign_def distinct_prop_set)

lemma fold_filter_distinct:
  "distinct (map fst g) \<Longrightarrow> Key ` fst ` set g \<inter> fst ` set w = {} \<Longrightarrow>
   \<forall>(k, v) \<in> set g. obj_get f k = v \<Longrightarrow>
   fold (\<lambda>key w. where_assign w key (obj_get f key)) (map fst g) w
     = w @ map (\<lambda>(k, v). (Key k, Value v)) (filter (\<lambda>(k, v). k \<noteq> ''__proto__'') g)"
proof (induction g arbitrary: w)
  case Nil
  then show ?case by simp
next
  case (Cons kv g)
  obtain k v where kv: "kv = (k, v)" by (cases kv)
  show ?case
  proof (cases "k = ''__proto__''")
    case True
    have "fold (\<lambda>key w. where_assign w key (obj_get f key)) (map fst g) w
            = w @ map (\<lambda>(k, v). (Key k, Value v)) (filter (\<lambda>(k, v). k \<noteq> ''__proto__'') g)"
      using Cons.prems kv by (intro Cons.IH) auto
    then show ?thesis by (simp add: kv True where_assign_def)
  next
    case False
    from Cons.prems kv have new: "Key k \<notin> fst ` set w" by auto
    have step: "where_assign w k (obj_get f k) = w @ [(Key k, Value v)]"
      using Cons.prems kv False by (simp add: where_assign_def prop_set_new [OF new])
    have "fold (\<lambda>key w. where_assign w key (obj_get f key)) (map fst g)
            (w @ [(Key k, Value v)])
          = (w @ [(Key k, Value v)])
            @ map (\<lambda>(k, v). (Key k, Value v)) (filter (\<lambda>(k, v). k \<noteq> ''__proto__'') g)"
      using Cons.prems kv by (intro Cons.IH) (auto simp: image_iff)
    then show ?thesis by (simp add: kv step False)
  qed
qed

lemma obj_get_distinct: "distinct (map fst f) \<Longrightarrow> (k, v) \<in> set f \<Longrightarrow> obj_get f k = v"
  by (simp add: obj_get_def)


lemma getAll_where_Op_or:
  "map_of (getAll_where model query) Op_or =
     (if truthy (q_search query)
      then Some (Conditions (search_conditions model (the (q_search query)))) else None)"
  by (simp add: getAll_where_def Let_def map_of_fold_filter split: option.splits)

lemma getAll_order_pure: "fst (getAll_order query) = []"
  by (simp add: getAll_order_def io_defs split: list.splits)



lemma getAll_where_Key:
  "map_of (getAll_where model query) (Key key) =
     (case q_filter query of
        None \<Rightarrow> None
      | Some f \<Rightarrow> if key = ''__proto__'' then None else map_option Value (map_of f key))"
proof (cases "q_filter query")
  case None
  then show ?thesis by (simp add: getAll_where_def Let_def)
next
  case (Some f)
  have "key \<notin> fst ` set f \<Longrightarrow> map_of f key = None"
    by (simp add: map_of_eq_None_iff)
  moreover have "key \<in> fst ` set f \<Longrightarrow> Some (Value (obj_get f key)) = map_option Value (map_of f key)"
    by (cases "map_of f key") (auto simp: obj_get_def map_of_eq_None_iff)
  ultimately show ?thesis
    using Some
    by (auto simp: getAll_where_def Let_def map_of_fold_filter Object_keys_def)
qed

lemma getAll_where_distinct: "distinct (map fst (getAll_where model query))"
  by (auto simp: getAll_where_def Let_def distinct_fold_filter split: option.splits)

lemma getAll_where_object:
  assumes "q_filter query = Some f" and "distinct (map fst f)"
  shows "getAll_where model query =
           (if truthy (q_search query)
            then [(Op_or, Conditions (search_conditions model (the (q_search query))))]
            else [])
           @ map (\<lambda>(k, v). (Key k, Value v)) (filter (\<lambda>(k, v). k \<noteq> ''__proto__'') f)"
proof -
  have vals: "\<forall>(k, v) \<in> set f. obj_get f k = v"
    using assms(2) by (auto simp: obj_get_distinct)
  have "fold (\<lambda>key w. where_assign w key (obj_get f key)) (map fst f) w
          = w @ map (\<lambda>(k, v). (Key k, Value v)) (filter (\<lambda>(k, v). k \<noteq> ''__proto__'') f)"
    if "Key ` fst ` set f \<inter> fst ` set w = {}" for w
    using assms(2) that vals by (rule fold_filter_distinct)
  from this [of "[]"] this [of "[(Op_or, c)]" for c] show ?thesis
    using assms(1) by (auto simp: getAll_where_def Let_def Object_keys_def)
qed

lemma getAll_first_call:
  assumes "getAll_order query = ([], Inr order)"
  shows "hd (fst (getAll JSON_stringify model query))
           = FindAndCountAll
               \<lparr>fc_where = getAll_where model query,
                fc_limit = (case q_limit query of None \<Rightarrow> 10 | Some l \<Rightarrow> l),
                fc_offset = ((case q_page query of None \<Rightarrow> 1 | Some p \<Rightarrow> p) - 1)
                            * (case q_limit query of None \<Rightarrow> 10 | Some l \<Rightarrow> l),
                fc_order = order, fc_paranoid = True\<rparr>"
  by (auto simp: getAll_def assms then_do_def try_catch_def await_def logger_info_def
        logger_error_def returns_def throw_def Let_def parseInt_def split: sum.splits)

lemma Math_ceil_divide:
  "limit \<noteq> 0 \<Longrightarrow> Math_ceil (js_divide n limit) = Finite (of_int \<lceil>of_int n / of_int limit :: rat\<rceil>)"
  by (simp add: js_divide_def)

lemmas example_defs = example_model_def example_rows_def selected_def obj_get_def
  example_sequelize_def empty_query_def example_stringify_def String_of_int_def

lemma no_transaction_getAll:
  "ev \<in> set (fst (getAll JSON_stringify model query))
   \<Longrightarrow> ev \<noteq> Transaction \<and> (\<forall>t. ev \<noteq> Commit t \<and> ev \<noteq> Rollback t)"
proof -
  obtain x where o: "getAll_order query = ([], x)"
    using getAll_order_pure [of query] by (cases "getAll_order query") simp
  show "ev \<in> set (fst (getAll JSON_stringify model query))
   \<Longrightarrow> ev \<noteq> Transaction \<and> (\<forall>t. ev \<noteq> Commit t \<and> ev \<noteq> Rollback t)"
    by (auto simp: getAll_def o then_do_def try_catch_def await_def logger_info_def
          logger_error_def returns_def throw_def Let_def split: sum.splits)
qed

lemma no_transaction_getDataListByField:
  "ev \<in> set (fst (getDataListByField model fieldName fieldValue))
   \<Longrightarrow> ev \<noteq> Transaction \<and> (\<forall>t. ev \<noteq> Commit t \<and> ev \<noteq> Rollback t)"
  by (auto simp: getDataListByField_def io_defs split: sum.splits if_splits)

lemma no_transaction_delete:
  "ev \<in> set (fst (delete model id'))
   \<Longrightarrow> ev \<noteq> Transaction \<and> (\<forall>t. ev \<noteq> Commit t \<and> ev \<noteq> Rollback t)"
  by (auto simp: delete_def io_defs split: sum.splits if_splits)

lemma create_scoped:
  assumes "transaction sq = Inr tx"
  shows "(\<exists>rest. fst (create sq model data) = Transaction # rest)
         \<and> (\<forall>d opts. Create d opts \<in> set (fst (create sq model data))
               \<longrightarrow> cr_transaction opts = tx)
         \<and> (Commit tx \<in> set (fst (create sq model data))
               \<longrightarrow> (\<exists>d r. data = Some d
                          \<and> model_create model d \<lparr>cr_transaction = tx\<rparr> = Inr r))
         \<and> (\<forall>r. snd (create sq model data) = Inr r
               \<longrightarrow> Commit tx \<in> set (fst (create sq model data))
                   \<and> Rollback tx \<notin> set (fst (create sq model data)))
         \<and> (\<forall>e. snd (create sq model data) = Inl e
               \<longrightarrow> Rollback tx \<in> set (fst (create sq model data)))"
  using assms
  by (auto simp: create_def io_defs split: option.splits sum.splits if_splits)

lemma update_scoped:
  assumes "transaction sq = Inr tx"
  shows "(\<exists>rest. fst (update sq model id' data) = Transaction # rest)
         \<and> (\<forall>d opts. Update d opts \<in> set (fst (update sq model id' data))
               \<longrightarrow> up_transaction opts = tx)
         \<and> (Commit tx \<in> set (fst (update sq model id' data))
               \<longrightarrow> (\<exists>d n updatedRows. data = Some d \<and> n \<noteq> 0
                          \<and> model_update model d (update_call_options tx id')
                              = Inr (n, updatedRows)))
         \<and> (\<forall>r. snd (update sq model id' data) = Inr r
               \<longrightarrow> Commit tx \<in> set (fst (update sq model id' data))
                   \<and> Rollback tx \<notin> set (fst (update sq model id' data)))
         \<and> (\<forall>e. snd (update sq model id' data) = Inl e
               \<longrightarrow> Rollback tx \<in> set (fst (update sq model id' data)))"
  using assms
  by (auto simp: update_def io_defs split: option.splits sum.splits if_splits list.splits)

lemma split_no_separator: "c \<notin> set s \<Longrightarrow> split c s = [s]"
  by (induction s) auto

lemma split_not_empty: "split c s \<noteq> []"
  by (induction s) (auto split: list.splits)

lemma split_with_separator: "c \<in> set s \<Longrightarrow> \<exists>a b rest. split c s = a # b # rest"
proof (induction s)
  case Nil
  then show ?case by simp
next
  case (Cons x xs)
  show ?case
  proof (cases "x = c")
    case True
    obtain b rest where "split c xs = b # rest"
      using split_not_empty [of c xs] by (cases "split c xs") auto
    with True show ?thesis by simp
  next
    case False
    with Cons.prems have "c \<in> set xs" by simp
    from Cons.IH [OF this] obtain a b rest where "split c xs = a # b # rest" by blast
    with False show ?thesis by simp
  qed
qed

lemma getAll_order_returns:
  assumes "q_sort query = None \<or> q_sort query = Some []
           \<or> (\<exists>s. q_sort query = Some s \<and> CHR '':'' \<in> set s)"
  shows "\<exists>order. getAll_order query = ([], Inr order)"
proof -
  from assms consider "\<not> truthy (q_sort query)"
    | s where "q_sort query = Some s" and "s \<noteq> []" and "CHR '':'' \<in> set s"
    by (cases "q_sort query") auto
  then show ?thesis
  proof cases
    case 1
    then show ?thesis by (simp add: getAll_order_def returns_def)
  next
    case 2
    from split_with_separator [OF 2(3)] obtain a b rest
      where "split (CHR '':'') s = a # b # rest" by blast
    with 2 show ?thesis by (simp add: getAll_order_def returns_def)
  qed
qed

lemma getAll_run:
  assumes "getAll_order query = ([], Inr order)"
  shows "getAll JSON_stringify model query =
           (case findAndCountAll model
                   \<lparr>fc_where = getAll_where model query,
                    fc_limit = (case q_limit query of None \<Rightarrow> 10 | Some l \<Rightarrow> l),
                    fc_offset = ((case q_page query of None \<Rightarrow> 1 | Some p \<Rightarrow> p) - 1)
                                * (case q_limit query of None \<Rightarrow> 10 | Some l \<Rightarrow> l),
                    fc_order = order, fc_paranoid = True\<rparr> of
              Inl m \<Rightarrow>
                ([FindAndCountAll
                    \<lparr>fc_where = getAll_where model query,
                     fc_limit = (case q_limit query of None \<Rightarrow> 10 | Some l \<Rightarrow> l),
                     fc_offset = ((case q_page query of None \<Rightarrow> 1 | Some p \<Rightarrow> p) - 1)
                                 * (case q_limit query of None \<Rightarrow> 10 | Some l \<Rightarrow> l),
                     fc_order = order, fc_paranoid = True\<rparr>,
                  LogError (''Error reading records from '' @ name model @ '': '' @ m)],
                 Inl (StoreError m))
            | Inr res \<Rightarrow>
                ([FindAndCountAll
                    \<lparr>fc_where = getAll_where model query,
                     fc_limit = (case q_limit query of None \<Rightarrow> 10 | Some l \<Rightarrow> l),
                     fc_offset = ((case q_page query of None \<Rightarrow> 1 | Some p \<Rightarrow> p) - 1)
                                 * (case q_limit query of None \<Rightarrow> 10 | Some l \<Rightarrow> l),
                     fc_order = order, fc_paranoid = True\<rparr>,
                  LogInfo (''Read records from '' @ name model @ '' with query ''
                           @ JSON_stringify query)],
                 Inr \<lparr>result_rows = rows res, result_count = count res,
                      totalPages = Math_ceil (js_divide (count res)
                                     (case q_limit query of None \<Rightarrow> 10 | Some l \<Rightarrow> l)),
                      currentPage = (case q_page query of None \<Rightarrow> 1 | Some p \<Rightarrow> p)\<rparr>))"
  by (simp add: getAll_def assms then_do_def try_catch_def await_def logger_info_def
        logger_error_def returns_def throw_def Let_def parseInt_def split: sum.splits)

lemma update_run:
  assumes "transaction sq = Inr tx"
  shows "update sq model id' data =
     (case data of
        None \<Rightarrow>
          (case rollback sq tx of
             Inl m \<Rightarrow> ([Transaction, Rollback tx], Inl (StoreError m))
           | Inr _ \<Rightarrow>
               ([Transaction, Rollback tx,
                 LogError (''Error updating record in '' @ name model
                           @ '': Update data cannot be empty'')],
                Inl (Error ''Update data cannot be empty'')))
      | Some d \<Rightarrow>
          if d = [] then
            (case rollback sq tx of
               Inl m \<Rightarrow> ([Transaction, Rollback tx], Inl (StoreError m))
             | Inr _ \<Rightarrow>
                 ([Transaction, Rollback tx,
                   LogError (''Error updating record in '' @ name model
                             @ '': Update data cannot be empty'')],
                  Inl (Error ''Update data cannot be empty'')))
          else
            (case model_update model d (update_call_options tx id') of
               Inl m \<Rightarrow>
                 (case rollback sq tx of
                    Inl m' \<Rightarrow>
                      ([Transaction, Update d (update_call_options tx id'), Rollback tx],
                       Inl (StoreError m'))
                  | Inr _ \<Rightarrow>
                      ([Transaction, Update d (update_call_options tx id'), Rollback tx,
                        LogError (''Error updating record in '' @ name model @ '': '' @ m)],
                       Inl (StoreError m)))
             | Inr (n, updatedRows) \<Rightarrow>
                 if n = 0 then
                   (case rollback sq tx of
                      Inl m' \<Rightarrow>
                        ([Transaction, Update d (update_call_options tx id'), Rollback tx],
                         Inl (StoreError m'))
                    | Inr _ \<Rightarrow>
                        ([Transaction, Update d (update_call_options tx id'), Rollback tx,
                          LogError (''Error updating record in '' @ name model @ '': ''
                                    @ name model @ '' with id '' @ ToString id'
                                    @ '' not found or no changes applied'')],
                         Inl (Error (name model @ '' with id '' @ ToString id'
                                     @ '' not found or no changes applied''))))
                 else
                   (case commit sq tx of
                      Inl m \<Rightarrow>
                        (case rollback sq tx of
                           Inl m' \<Rightarrow>
                             ([Transaction, Update d (update_call_options tx id'), Commit tx,
                               Rollback tx],
                              Inl (StoreError m'))
                         | Inr _ \<Rightarrow>
                             ([Transaction, Update d (update_call_options tx id'), Commit tx,
                               Rollback tx,
                               LogError (''Error updating record in '' @ name model @ '': ''
                                         @ m)],
                              Inl (StoreError m)))
                    | Inr _ \<Rightarrow>
                        (case updatedRows of
                           None \<Rightarrow>
                             (case rollback sq tx of
                                Inl m' \<Rightarrow>
                                  ([Transaction, Update d (update_call_options tx id'),
                                    Commit tx,
                                    LogInfo (''Updated record in '' @ name model
                                             @ '' with id '' @ ToString id'),
                                    Rollback tx],
                                   Inl (StoreError m'))
                              | Inr _ \<Rightarrow>
                                  ([Transaction, Update d (update_call_options tx id'),
                                    Commit tx,
                                    LogInfo (''Updated record in '' @ name model
                                             @ '' with id '' @ ToString id'),
                                    Rollback tx,
                                    LogError (''Error updating record in '' @ name model
                                      @ '': Cannot read properties of undefined (reading '0')'')],
                                   Inl (TypeError
                                     ''Cannot read properties of undefined (reading '0')'')))
                         | Some rs \<Rightarrow>
                             ([Transaction, Update d (update_call_options tx id'), Commit tx,
                               LogInfo (''Updated record in '' @ name model @ '' with id ''
                                        @ ToString id')],
                              Inr (case rs of [] \<Rightarrow> None | first # _ \<Rightarrow> Some first))))))"
  using assms
  by (simp add: update_def io_defs Object_keys_def
      split: option.splits sum.splits list.splits prod.splits)

text \<open>
  Behind a dialect that returns no rows from an update, \<open>updatedRows\<close> is \<open>undefined\<close>:
  the read of \<open>updatedRows[0]\<close> raises a \<open>TypeError\<close> after the commit, and the \<open>catch\<close>
  block calls \<open>rollback\<close> on the committed transaction.
\<close>

lemma update_throws_after_commit:
  "update example_sequelize example_model_no_returning (JNum 1)
     (Some [(''title'', JStr ''RRB NTPC'')])
     = ([Transaction,
         Update [(''title'', JStr ''RRB NTPC'')] (update_call_options 1 (JNum 1)),
         Commit 1, LogInfo ''Updated record in JobUpdate with id 1'', Rollback 1,
         LogError ''Error updating record in JobUpdate: Cannot read properties of undefined (reading '0')''],
        Inl (TypeError ''Cannot read properties of undefined (reading '0')''))"
  by (simp add: update_def io_defs example_defs example_model_no_returning_def Object_keys_def)

section \<open>The claims\<close>

text \<open>
  Claim C1, as amended. \<open>create\<close> and \<open>update\<close> scope their store write in a transaction
  opened per call: once the transaction is open, the write carries it, \<open>commit\<close> is called
  only after the write resolved (for \<open>update\<close> with a row count other than zero), a call
  that returns has committed and has not rolled back, and a call that throws has called
  \<open>rollback\<close>. \<open>getAll\<close>, \<open>getDataListByField\<close> and \<open>delete\<close> open no transaction and
  neither commit nor roll back.
\<close>

theorem transaction_scoping:
  "(\<forall>ev. ev \<in> set (fst (getAll JSON_stringify model query))
             \<union> set (fst (getDataListByField model fieldName fieldValue))
             \<union> set (fst (delete model id'))
         \<longrightarrow> ev \<noteq> Transaction \<and> (\<forall>t. ev \<noteq> Commit t \<and> ev \<noteq> Rollback t))
   \<and> (\<forall>tx. transaction sq = Inr tx \<longrightarrow>
          (\<exists>rest. fst (create sq model data) = Transaction # rest)
          \<and> (\<forall>d opts. Create d opts \<in> set (fst (create sq model data))
                \<longrightarrow> cr_transaction opts = tx)
          \<and> (Commit tx \<in> set (fst (create sq model data))
                \<longrightarrow> (\<exists>d r. data = Some d
                           \<and> model_create model d \<lparr>cr_transaction = tx\<rparr> = Inr r))
          \<and> (\<forall>r. snd (create sq model data) = Inr r
                \<longrightarrow> Commit tx \<in> set (fst (create sq model data))
                    \<and> Rollback tx \<notin> set (fst (create sq model data)))
          \<and> (\<forall>e. snd (create sq model data) = Inl e
                \<longrightarrow> Rollback tx \<in> set (fst (create sq model data)))
          \<and> (\<exists>rest. fst (update sq model id' data) = Transaction # rest)
          \<and> (\<forall>d opts. Update d opts \<in> set (fst (update sq model id' data))
                \<longrightarrow> up_transaction opts = tx)
          \<and> (Commit tx \<in> set (fst (update sq model id' data))
                \<longrightarrow> (\<exists>d n updatedRows. data = Some d \<and> n \<noteq> 0
                           \<and> model_update model d (update_call_options tx id')
                               = Inr (n, updatedRows)))
          \<and> (\<forall>r. snd (update sq model id' data) = Inr r
                \<longrightarrow> Commit tx \<in> set (fst (update sq model id' data))
                    \<and> Rollback tx \<notin> set (fst (update sq model id' data)))
          \<and> (\<forall>e. snd (update sq model id' data) = Inl e
                \<longrightarrow> Rollback tx \<in> set (fst (update sq model id' data))))"
proof (intro conjI allI impI)
  fix ev
  assume "ev \<in> set (fst (getAll JSON_stringify model query))
             \<union> set (fst (getDataListByField model fieldName fieldValue))
             \<union> set (fst (delete model id'))"
  then show "ev \<noteq> Transaction" and "\<And>t. ev \<noteq> Commit t" and "\<And>t. ev \<noteq> Rollback t"
    using no_transaction_getAll [of ev JSON_stringify model query]
      no_transaction_getDataListByField [of ev model fieldName fieldValue]
      no_transaction_delete [of ev model id']
    by auto
next
  fix tx
  assume tx: "transaction sq = Inr tx"
  note c = create_scoped [OF tx, of model data] and u = update_scoped [OF tx, of model id' data]
  show "\<exists>rest. fst (create sq model data) = Transaction # rest"
    using c by blast
  show "\<exists>rest. fst (update sq model id' data) = Transaction # rest"
    using u by blast
  show "\<exists>d r. data = Some d \<and> model_create model d \<lparr>cr_transaction = tx\<rparr> = Inr r"
    if "Commit tx \<in> set (fst (create sq model data))"
    using c that by blast
  show "\<exists>d n updatedRows. data = Some d \<and> n \<noteq> 0
          \<and> model_update model d (update_call_options tx id') = Inr (n, updatedRows)"
    if "Commit tx \<in> set (fst (update sq model id' data))"
    using u that by blast
  show "cr_transaction opts = tx"
    if "Create d opts \<in> set (fst (create sq model data))" for d opts
    using c that by blast
  show "up_transaction opts = tx"
    if "Update d opts \<in> set (fst (update sq model id' data))" for d opts
    using u that by blast
  show "Commit tx \<in> set (fst (create sq model data))"
    and "Rollback tx \<notin> set (fst (create sq model data))"
    if "snd (create sq model data) = Inr r" for r
    using c that by blast+
  show "Commit tx \<in> set (fst (update sq model id' data))"
    and "Rollback tx \<notin> set (fst (update sq model id' data))"
    if "snd (update sq model id' data) = Inr r" for r
    using u that by blast+
  show "Rollback tx \<in> set (fst (create sq model data))"
    if "snd (create sq model data) = Inl e" for e
    using c that by blast
  show "Rollback tx \<in> set (fst (update sq model id' data))"
    if "snd (update sq model id' data) = Inl e" for e
    using u that by blast
qed

text \<open>
  The claim as the spec states it fails: a \<open>delete\<close> of an id the store does not have
  throws, and its one store call ran outside any transaction, with nothing rolled back.
\<close>

theorem delete_without_transaction:
  "delete example_model (JNum 9)
     = ([Destroy \<lparr>de_where = [(Key ''id'', Value (JNum 9))]\<rparr>,
         LogError ''Error soft deleting record from JobUpdate: JobUpdate with id 9 not found or already deleted''],
        Inl (Error ''JobUpdate with id 9 not found or already deleted''))
   \<and> Transaction \<notin> set (fst (delete example_model (JNum 9)))
   \<and> Rollback 1 \<notin> set (fst (delete example_model (JNum 9)))"
  by (simp add: delete_def io_defs example_defs)

theorem transaction_scoping_witness:
  "fst (create example_sequelize example_model (Some [(''title'', JStr ''RRB NTPC'')]))
     = [Transaction, Create [(''title'', JStr ''RRB NTPC'')] \<lparr>cr_transaction = 1\<rparr>, Commit 1,
        LogInfo ''Created record in JobUpdate with id 3'']
   \<and> Commit 1 \<in> set (fst (create example_sequelize example_model
                              (Some [(''title'', JStr ''RRB NTPC'')])))
   \<and> Rollback 1 \<notin> set (fst (create example_sequelize example_model
                                (Some [(''title'', JStr ''RRB NTPC'')])))
   \<and> Rollback 1 \<in> set (fst (update example_sequelize example_model (JNum 9)
                              (Some [(''title'', JStr ''RRB NTPC'')])))
   \<and> Transaction \<notin> set (fst (getDataListByField example_model ''id'' (JNum 1)))"
proof -
  have tx: "transaction example_sequelize = Inr 1"
    by (simp add: example_sequelize_def)
  have created: "snd (create example_sequelize example_model (Some [(''title'', JStr ''RRB NTPC'')]))
                   = Inr [(''id'', JNum 3), (''title'', JStr ''RRB NTPC'')]"
    by (simp add: create_def io_defs example_defs Object_keys_def)
  have failed: "snd (update example_sequelize example_model (JNum 9)
                       (Some [(''title'', JStr ''RRB NTPC'')]))
                  = Inl (Error ''JobUpdate with id 9 not found or no changes applied'')"
    by (simp add: update_def io_defs example_defs Object_keys_def)
  have trace: "fst (create example_sequelize example_model (Some [(''title'', JStr ''RRB NTPC'')]))
     = [Transaction, Create [(''title'', JStr ''RRB NTPC'')] \<lparr>cr_transaction = 1\<rparr>, Commit 1,
        LogInfo ''Created record in JobUpdate with id 3'']"
    by (simp add: create_def io_defs example_defs Object_keys_def)
  have read: "FindAll \<lparr>fa_where = [(Key ''id'', Value (JNum 1))], fa_paranoid = True\<rparr>
                \<in> set (fst (getDataListByField example_model ''id'' (JNum 1)))"
    by (simp add: getDataListByField_def io_defs example_defs)
  note s = transaction_scoping
    [of example_stringify example_model empty_query "''id''" "JNum 1" "JNum 9"
      example_sequelize "Some [(''title'', JStr ''RRB NTPC'')]"]
  from s tx created
  have "Commit 1 \<in> set (fst (create example_sequelize example_model
                              (Some [(''title'', JStr ''RRB NTPC'')])))"
    and "Rollback 1 \<notin> set (fst (create example_sequelize example_model
                                (Some [(''title'', JStr ''RRB NTPC'')])))"
    by blast+
  moreover from s tx failed
  have "Rollback 1 \<in> set (fst (update example_sequelize example_model (JNum 9)
                              (Some [(''title'', JStr ''RRB NTPC'')])))"
    by blast
  moreover from s
  have "Transaction \<notin> set (fst (getDataListByField example_model ''id'' (JNum 1)))"
    by blast
  ultimately show ?thesis using trace by simp
qed

text \<open>
  Claim C2, as amended. For a query whose sort option is absent, empty or contains a
  \<open>:\<close>, and whose page and limit (1 and 10 when absent) and offset are safe integers,
  \<open>getAll\<close> requests the store once, with the offset \<open>(page - 1) * limit\<close> and the limit;
  when the store answers with rows and a safe-integer count, \<open>getAll\<close> returns these
  rows and this count with \<open>totalPages\<close> equal to \<open>Math.ceil(count / limit)\<close>, the ceiling
  of the quotient when \<open>limit\<close> is not zero, and \<open>currentPage\<close> equal to the page; when the
  store rejects, \<open>getAll\<close> throws the rejection.
\<close>

theorem getAll_paging:
  assumes page: "page = (case q_page query of None \<Rightarrow> 1 | Some p \<Rightarrow> p)"
    and limit: "limit = (case q_limit query of None \<Rightarrow> 10 | Some l \<Rightarrow> l)"
    and sort: "q_sort query = None \<or> q_sort query = Some []
               \<or> (\<exists>s. q_sort query = Some s \<and> CHR '':'' \<in> set s)"
    and safe: "safe_integer page" "safe_integer limit" "safe_integer ((page - 1) * limit)"
  shows "\<exists>order.
           getAll_order query = ([], Inr order)
           \<and> (\<exists>rest. fst (getAll JSON_stringify model query)
                        = FindAndCountAll
                            \<lparr>fc_where = getAll_where model query, fc_limit = limit,
                             fc_offset = (page - 1) * limit, fc_order = order,
                             fc_paranoid = True\<rparr> # rest
                      \<and> (\<forall>opts. FindAndCountAll opts \<notin> set rest))
           \<and> (\<forall>res. findAndCountAll model
                        \<lparr>fc_where = getAll_where model query, fc_limit = limit,
                         fc_offset = (page - 1) * limit, fc_order = order,
                         fc_paranoid = True\<rparr> = Inr res
                      \<and> safe_integer (count res)
                \<longrightarrow> getAll JSON_stringify model query
                      = ([FindAndCountAll
                            \<lparr>fc_where = getAll_where model query, fc_limit = limit,
                             fc_offset = (page - 1) * limit, fc_order = order,
                             fc_paranoid = True\<rparr>,
                          LogInfo (''Read records from '' @ name model @ '' with query ''
                                   @ JSON_stringify query)],
                         Inr \<lparr>result_rows = rows res, result_count = count res,
                              totalPages = Math_ceil (js_divide (count res) limit),
                              currentPage = page\<rparr>)
                    \<and> (limit \<noteq> 0 \<longrightarrow>
                         Math_ceil (js_divide (count res) limit)
                           = Finite (of_int \<lceil>of_int (count res) / of_int limit :: rat\<rceil>)))
           \<and> (\<forall>m. findAndCountAll model
                      \<lparr>fc_where = getAll_where model query, fc_limit = limit,
                       fc_offset = (page - 1) * limit, fc_order = order,
                       fc_paranoid = True\<rparr> = Inl m
                \<longrightarrow> snd (getAll JSON_stringify model query) = Inl (StoreError m))"
proof -
  from getAll_order_returns [OF sort] obtain order
    where order: "getAll_order query = ([], Inr order)" by blast
  note run = getAll_run [OF order, of JSON_stringify model, folded page limit]
  have "\<exists>rest. fst (getAll JSON_stringify model query)
                        = FindAndCountAll
                            \<lparr>fc_where = getAll_where model query, fc_limit = limit,
                             fc_offset = (page - 1) * limit, fc_order = order,
                             fc_paranoid = True\<rparr> # rest
                      \<and> (\<forall>opts. FindAndCountAll opts \<notin> set rest)"
    by (simp add: run split: sum.splits)
  moreover have "getAll JSON_stringify model query
                      = ([FindAndCountAll
                            \<lparr>fc_where = getAll_where model query, fc_limit = limit,
                             fc_offset = (page - 1) * limit, fc_order = order,
                             fc_paranoid = True\<rparr>,
                          LogInfo (''Read records from '' @ name model @ '' with query ''
                                   @ JSON_stringify query)],
                         Inr \<lparr>result_rows = rows res, result_count = count res,
                              totalPages = Math_ceil (js_divide (count res) limit),
                              currentPage = page\<rparr>)
                    \<and> (limit \<noteq> 0 \<longrightarrow>
                         Math_ceil (js_divide (count res) limit)
                           = Finite (of_int \<lceil>of_int (count res) / of_int limit :: rat\<rceil>))"
    if "findAndCountAll model
                        \<lparr>fc_where = getAll_where model query, fc_limit = limit,
                         fc_offset = (page - 1) * limit, fc_order = order,
                         fc_paranoid = True\<rparr> = Inr res" for res
    using that by (simp add: run Math_ceil_divide)
  moreover have "snd (getAll JSON_stringify model query) = Inl (StoreError m)"
    if "findAndCountAll model
                      \<lparr>fc_where = getAll_where model query, fc_limit = limit,
                       fc_offset = (page - 1) * limit, fc_order = order,
                       fc_paranoid = True\<rparr> = Inl m" for m
    using that by (simp add: run)
  ultimately show ?thesis using order by blast
qed

text \<open>
  The claim as the spec states it, for every query object, fails: with the sort option
  \<open>createdAt\<close> \<open>getAll\<close> throws before it requests the store, whatever the page and
  the limit are.
\<close>

theorem getAll_paging_stops_at_sort:
  "getAll example_stringify example_model
     (empty_query\<lparr>q_page := Some 2, q_limit := Some 5, q_sort := Some ''createdAt''\<rparr>)
     = ([LogError ''Error reading records from JobUpdate: Cannot read properties of undefined (reading 'toUpperCase')''],
        Inl (TypeError ''Cannot read properties of undefined (reading 'toUpperCase')''))"
  by (simp add: getAll_def getAll_order_def io_defs example_model_def empty_query_def Let_def)

theorem getAll_paging_witness:
  "fst (getAll example_stringify example_model empty_query)
     = [FindAndCountAll \<lparr>fc_where = [], fc_limit = 10, fc_offset = 0, fc_order = [],
                          fc_paranoid = True\<rparr>,
        LogInfo ''Read records from JobUpdate with query {}'']
   \<and> snd (getAll example_stringify example_model empty_query)
     = Inr \<lparr>result_rows =
              [[(''id'', JNum 1), (''title'', JStr ''SSC CGL''),
                (''category'', JStr ''latest-jobs'')],
               [(''id'', JNum 2), (''title'', JStr ''UPSC NDA''),
                (''category'', JStr ''results'')]],
            result_count = 2, totalPages = Finite 1, currentPage = 1\<rparr>
   \<and> hd (fst (getAll example_stringify example_model
                 (empty_query\<lparr>q_page := Some 2, q_limit := Some 1,
                               q_sort := Some ''title:desc''\<rparr>)))
     = FindAndCountAll \<lparr>fc_where = [], fc_limit = 1, fc_offset = 1,
                         fc_order = [(''title'', ''DESC'')], fc_paranoid = True\<rparr>
   \<and> snd (getAll example_stringify example_model
              (empty_query\<lparr>q_page := Some 2, q_limit := Some 1,
                            q_sort := Some ''title:desc''\<rparr>))
     = Inr \<lparr>result_rows =
              [[(''id'', JNum 2), (''title'', JStr ''UPSC NDA''),
                (''category'', JStr ''results'')]],
            result_count = 2, totalPages = Finite 2, currentPage = 2\<rparr>"
proof -
  let ?q = "empty_query\<lparr>q_page := Some 2, q_limit := Some 1, q_sort := Some ''title:desc''\<rparr>"
  have nm: "name example_model = ''JobUpdate''"
    by (simp add: example_model_def)
  have w: "getAll_where example_model empty_query = []"
    and w2: "getAll_where example_model ?q = []"
    by (simp_all add: getAll_where_def empty_query_def Let_def)
  \<comment> \<open>the empty query: the defaults\<close>
  have p1: "(1::int) = (case q_page empty_query of None \<Rightarrow> 1 | Some p \<Rightarrow> p)"
    and l1: "(10::int) = (case q_limit empty_query of None \<Rightarrow> 10 | Some l \<Rightarrow> l)"
    and s1: "q_sort empty_query = None \<or> q_sort empty_query = Some []
             \<or> (\<exists>s. q_sort empty_query = Some s \<and> CHR '':'' \<in> set s)"
    and safe1: "safe_integer 1" "safe_integer 10" "safe_integer ((1 - 1) * 10)"
    by (simp_all add: empty_query_def safe_integer_def)
  have o1: "getAll_order empty_query = ([], Inr [])"
    by (simp add: getAll_order_def empty_query_def returns_def)
  have a1: "findAndCountAll example_model
              \<lparr>fc_where = [], fc_limit = 10, fc_offset = (1 - 1) * 10, fc_order = [],
               fc_paranoid = True\<rparr>
            = Inr \<lparr>rows = [[(''id'', JNum 1), (''title'', JStr ''SSC CGL''),
                            (''category'', JStr ''latest-jobs'')],
                           [(''id'', JNum 2), (''title'', JStr ''UPSC NDA''),
                            (''category'', JStr ''results'')]],
                   count = 2\<rparr>
            \<and> safe_integer 2"
    by (simp add: example_defs safe_integer_def)
  have c1: "\<lceil>1 / 5 :: rat\<rceil> = 1"
    by (simp add: ceiling_eq_iff)
  from getAll_paging [OF p1 l1 s1 safe1, of example_stringify example_model] o1
  have t1: "\<forall>res. findAndCountAll example_model
                     \<lparr>fc_where = getAll_where example_model empty_query, fc_limit = 10,
                      fc_offset = (1 - 1) * 10, fc_order = [], fc_paranoid = True\<rparr> = Inr res
                   \<and> safe_integer (count res)
             \<longrightarrow> getAll example_stringify example_model empty_query
                   = ([FindAndCountAll
                         \<lparr>fc_where = getAll_where example_model empty_query, fc_limit = 10,
                          fc_offset = (1 - 1) * 10, fc_order = [], fc_paranoid = True\<rparr>,
                       LogInfo (''Read records from '' @ name example_model @ '' with query ''
                                @ example_stringify empty_query)],
                      Inr \<lparr>result_rows = rows res, result_count = count res,
                           totalPages = Math_ceil (js_divide (count res) 10),
                           currentPage = 1\<rparr>)
                 \<and> ((10::int) \<noteq> 0 \<longrightarrow>
                      Math_ceil (js_divide (count res) 10)
                        = Finite (of_int \<lceil>of_int (count res) / of_int 10 :: rat\<rceil>))"
    by auto
  from t1 a1 have r1: "getAll example_stringify example_model empty_query
      = ([FindAndCountAll \<lparr>fc_where = [], fc_limit = 10, fc_offset = 0, fc_order = [],
                           fc_paranoid = True\<rparr>,
          LogInfo ''Read records from JobUpdate with query {}''],
         Inr \<lparr>result_rows =
                [[(''id'', JNum 1), (''title'', JStr ''SSC CGL''),
                  (''category'', JStr ''latest-jobs'')],
                 [(''id'', JNum 2), (''title'', JStr ''UPSC NDA''),
                  (''category'', JStr ''results'')]],
              result_count = 2, totalPages = Finite 1, currentPage = 1\<rparr>)"
    by (simp add: w nm example_stringify_def c1)
  \<comment> \<open>page 2 of pages of one row, sorted\<close>
  have p2: "(2::int) = (case q_page ?q of None \<Rightarrow> 1 | Some p \<Rightarrow> p)"
    and l2: "(1::int) = (case q_limit ?q of None \<Rightarrow> 10 | Some l \<Rightarrow> l)"
    and s2: "q_sort ?q = None \<or> q_sort ?q = Some []
             \<or> (\<exists>s. q_sort ?q = Some s \<and> CHR '':'' \<in> set s)"
    and safe2: "safe_integer 2" "safe_integer 1" "safe_integer ((2 - 1) * 1)"
    by (simp_all add: safe_integer_def)
  have o2: "getAll_order ?q = ([], Inr [(''title'', ''DESC'')])"
    by (simp add: getAll_order_def returns_def toUpperCase_def upper_table_def)
  have a2: "findAndCountAll example_model
              \<lparr>fc_where = [], fc_limit = 1, fc_offset = (2 - 1) * 1,
               fc_order = [(''title'', ''DESC'')], fc_paranoid = True\<rparr>
            = Inr \<lparr>rows = [[(''id'', JNum 2), (''title'', JStr ''UPSC NDA''),
                            (''category'', JStr ''results'')]],
                   count = 2\<rparr>
            \<and> safe_integer 2"
    by (simp add: example_defs safe_integer_def)
  from getAll_paging [OF p2 l2 s2 safe2, of example_stringify example_model] o2
  have t2: "(\<exists>rest. fst (getAll example_stringify example_model ?q)
                = FindAndCountAll
                    \<lparr>fc_where = getAll_where example_model ?q, fc_limit = 1,
                     fc_offset = (2 - 1) * 1, fc_order = [(''title'', ''DESC'')],
                     fc_paranoid = True\<rparr> # rest
              \<and> (\<forall>opts. FindAndCountAll opts \<notin> set rest))
            \<and> (\<forall>res. findAndCountAll example_model
                     \<lparr>fc_where = getAll_where example_model ?q, fc_limit = 1,
                      fc_offset = (2 - 1) * 1, fc_order = [(''title'', ''DESC'')],
                      fc_paranoid = True\<rparr> = Inr res
                   \<and> safe_integer (count res)
             \<longrightarrow> getAll example_stringify example_model ?q
                   = ([FindAndCountAll
                         \<lparr>fc_where = getAll_where example_model ?q, fc_limit = 1,
                          fc_offset = (2 - 1) * 1, fc_order = [(''title'', ''DESC'')],
                          fc_paranoid = True\<rparr>,
                       LogInfo (''Read records from '' @ name example_model @ '' with query ''
                                @ example_stringify ?q)],
                      Inr \<lparr>result_rows = rows res, result_count = count res,
                           totalPages = Math_ceil (js_divide (count res) 1),
                           currentPage = 2\<rparr>)
                 \<and> ((1::int) \<noteq> 0 \<longrightarrow>
                      Math_ceil (js_divide (count res) 1)
                        = Finite (of_int \<lceil>of_int (count res) / of_int 1 :: rat\<rceil>)))"
    by auto
  from t2 have h2: "hd (fst (getAll example_stringify example_model ?q))
     = FindAndCountAll \<lparr>fc_where = [], fc_limit = 1, fc_offset = 1,
                         fc_order = [(''title'', ''DESC'')], fc_paranoid = True\<rparr>"
    by (auto simp: w2)
  from t2 a2 have r2: "snd (getAll example_stringify example_model ?q)
     = Inr \<lparr>result_rows =
              [[(''id'', JNum 2), (''title'', JStr ''UPSC NDA''),
                (''category'', JStr ''results'')]],
            result_count = 2, totalPages = Finite 2, currentPage = 2\<rparr>"
    by (simp add: w2)
  from r1 h2 r2 show ?thesis by simp
qed





text \<open>
  Claim C5, as amended. When \<open>data\<close> is missing or has no keys, \<open>create\<close> and \<open>update\<close>
  issue no store write and never return. Provided \<open>sequelize.transaction()\<close> resolves and
  the rollback resolves, they roll the transaction back, log and throw the empty-payload
  error; when the rollback rejects, they throw its rejection, and when
  \<open>sequelize.transaction()\<close> rejects, they throw that rejection with nothing else done.
\<close>

theorem empty_payload_rejected:
  assumes "data = None \<or> (\<exists>d. data = Some d \<and> length (Object_keys d) = 0)"
  shows "(\<forall>tx. transaction sq = Inr tx \<and> rollback sq tx = Inr ()
            \<longrightarrow> create sq model data
                  = ([Transaction, Rollback tx,
                      LogError (''Error creating record in '' @ name model
                                @ '': Data cannot be empty'')],
                     Inl (Error ''Data cannot be empty''))
                \<and> update sq model id' data
                  = ([Transaction, Rollback tx,
                      LogError (''Error updating record in '' @ name model
                                @ '': Update data cannot be empty'')],
                     Inl (Error ''Update data cannot be empty'')))
         \<and> (\<forall>tx m. transaction sq = Inr tx \<and> rollback sq tx = Inl m
            \<longrightarrow> create sq model data = ([Transaction, Rollback tx], Inl (StoreError m))
                \<and> update sq model id' data = ([Transaction, Rollback tx], Inl (StoreError m)))
         \<and> (\<forall>m. transaction sq = Inl m
            \<longrightarrow> create sq model data = ([Transaction], Inl (StoreError m))
                \<and> update sq model id' data = ([Transaction], Inl (StoreError m)))
         \<and> (\<forall>d opts. Create d opts \<notin> set (fst (create sq model data)))
         \<and> (\<forall>d opts. Update d opts \<notin> set (fst (update sq model id' data)))
         \<and> (\<forall>r. snd (create sq model data) \<noteq> Inr r)
         \<and> (\<forall>r. snd (update sq model id' data) \<noteq> Inr r)"
proof (cases "transaction sq")
  case (Inl m)
  then show ?thesis by (simp add: create_def update_def io_defs)
next
  case (Inr tx)
  with assms show ?thesis
    by (cases "rollback sq tx") (auto simp: create_def update_def io_defs)
qed

text \<open>
  The claim as the spec states it fails: the transaction is opened before the payload is
  looked at and rolled back before the error is rethrown, so with a rollback that rejects
  the error thrown for an empty payload is the rejection.
\<close>

theorem empty_payload_with_failing_rollback:
  "create example_sequelize_rollback_fails example_model (Some [])
     = ([Transaction, Rollback 1], Inl (StoreError ''connection lost''))
   \<and> update example_sequelize_rollback_fails example_model (JNum 1) None
     = ([Transaction, Rollback 1], Inl (StoreError ''connection lost''))"
  by (simp add: create_def update_def io_defs example_sequelize_rollback_fails_def
        Object_keys_def)

theorem empty_payload_rejected_witness:
  "create example_sequelize example_model (Some [])
     = ([Transaction, Rollback 1,
         LogError ''Error creating record in JobUpdate: Data cannot be empty''],
        Inl (Error ''Data cannot be empty''))
   \<and> update example_sequelize example_model (JNum 1) (Some [])
     = ([Transaction, Rollback 1,
         LogError ''Error updating record in JobUpdate: Update data cannot be empty''],
        Inl (Error ''Update data cannot be empty''))"
proof -
  have empty: "Some [] = None \<or> (\<exists>d. Some [] = Some d \<and> length (Object_keys d) = 0)"
    by (simp add: Object_keys_def)
  have tx: "transaction example_sequelize = Inr 1 \<and> rollback example_sequelize 1 = Inr ()"
    by (simp add: example_sequelize_def)
  have nm: "name example_model = ''JobUpdate''"
    by (simp add: example_model_def)
  from empty_payload_rejected [OF empty, of example_sequelize example_model "JNum 1"] tx
  have "create example_sequelize example_model (Some [])
          = ([Transaction, Rollback 1,
              LogError (''Error creating record in '' @ name example_model
                        @ '': Data cannot be empty'')],
             Inl (Error ''Data cannot be empty''))
        \<and> update example_sequelize example_model (JNum 1) (Some [])
          = ([Transaction, Rollback 1,
              LogError (''Error updating record in '' @ name example_model
                        @ '': Update data cannot be empty'')],
             Inl (Error ''Update data cannot be empty''))"
    by blast
  then show ?thesis by (simp add: nm)
qed

text \<open>
  Claim C6, as amended. Once \<open>sequelize.transaction()\<close> has resolved: provided the
  rollback resolves, \<open>update\<close> throws its "not found" error exactly when the store reports
  zero updated rows for the id, and when the rollback rejects it throws that rejection
  instead; when the store reports a row count other than zero together with the array of
  the updated rows and the commit resolves, \<open>update\<close> commits and returns
  \<open>updatedRows[0]\<close>, the first of the updated rows, and it returns in no other case; and
  whenever \<open>update\<close> throws, it has called \<open>rollback\<close> as its last call on the store, before
  the error's log line.
\<close>

theorem update_outcomes:
  assumes "transaction sq = Inr tx"
  shows "(rollback sq tx = Inr () \<longrightarrow>
            (snd (update sq model id' data)
               = Inl (Error (name model @ '' with id '' @ ToString id'
                             @ '' not found or no changes applied''))
             \<longleftrightarrow> (\<exists>d updatedRows.
                    data = Some d \<and> d \<noteq> []
                    \<and> model_update model d (update_call_options tx id')
                        = Inr (0, updatedRows))))
         \<and> (\<forall>d updatedRows m.
               data = Some d \<and> d \<noteq> []
               \<and> model_update model d (update_call_options tx id') = Inr (0, updatedRows)
               \<and> rollback sq tx = Inl m
               \<longrightarrow> update sq model id' data
                     = ([Transaction, Update d (update_call_options tx id'), Rollback tx],
                        Inl (StoreError m)))
         \<and> (\<forall>d n updatedRows.
               data = Some d \<and> d \<noteq> []
               \<and> model_update model d (update_call_options tx id')
                   = Inr (n, Some updatedRows)
               \<and> n \<noteq> 0 \<and> commit sq tx = Inr ()
               \<longrightarrow> update sq model id' data
                     = ([Transaction, Update d (update_call_options tx id'), Commit tx,
                         LogInfo (''Updated record in '' @ name model @ '' with id ''
                                  @ ToString id')],
                        Inr (case updatedRows of [] \<Rightarrow> None | first # _ \<Rightarrow> Some first)))
         \<and> (\<forall>r. snd (update sq model id' data) = Inr r \<longrightarrow>
               (\<exists>d n updatedRows.
                  data = Some d \<and> d \<noteq> []
                  \<and> model_update model d (update_call_options tx id')
                      = Inr (n, Some updatedRows)
                  \<and> n \<noteq> 0 \<and> commit sq tx = Inr ()
                  \<and> r = (case updatedRows of [] \<Rightarrow> None | first # _ \<Rightarrow> Some first)))
         \<and> (\<forall>e. snd (update sq model id' data) = Inl e \<longrightarrow>
               (\<exists>before.
                  (rollback sq tx = Inr ()
                   \<and> fst (update sq model id' data)
                       = before @ [Rollback tx,
                                   LogError (''Error updating record in '' @ name model
                                             @ '': '' @ message e)])
                  \<or> (\<exists>m. rollback sq tx = Inl m \<and> e = StoreError m
                          \<and> fst (update sq model id' data) = before @ [Rollback tx])))"
proof -
  note run = update_run [OF assms, of model id' data]
  have c1: "rollback sq tx = Inr () \<longrightarrow>
            (snd (update sq model id' data)
               = Inl (Error (name model @ '' with id '' @ ToString id'
                             @ '' not found or no changes applied''))
             \<longleftrightarrow> (\<exists>d updatedRows.
                    data = Some d \<and> d \<noteq> []
                    \<and> model_update model d (update_call_options tx id')
                        = Inr (0, updatedRows)))"
    by (auto simp: run split: option.splits sum.splits)
  have c2: "\<forall>d updatedRows m.
               data = Some d \<and> d \<noteq> []
               \<and> model_update model d (update_call_options tx id') = Inr (0, updatedRows)
               \<and> rollback sq tx = Inl m
               \<longrightarrow> update sq model id' data
                     = ([Transaction, Update d (update_call_options tx id'), Rollback tx],
                        Inl (StoreError m))"
    unfolding run by simp
  have c3: "\<forall>d n updatedRows.
               data = Some d \<and> d \<noteq> []
               \<and> model_update model d (update_call_options tx id')
                   = Inr (n, Some updatedRows)
               \<and> n \<noteq> 0 \<and> commit sq tx = Inr ()
               \<longrightarrow> update sq model id' data
                     = ([Transaction, Update d (update_call_options tx id'), Commit tx,
                         LogInfo (''Updated record in '' @ name model @ '' with id ''
                                  @ ToString id')],
                        Inr (case updatedRows of [] \<Rightarrow> None | first # _ \<Rightarrow> Some first))"
    unfolding run by simp
  have c4: "\<forall>r. snd (update sq model id' data) = Inr r \<longrightarrow>
               (\<exists>d n updatedRows.
                  data = Some d \<and> d \<noteq> []
                  \<and> model_update model d (update_call_options tx id')
                      = Inr (n, Some updatedRows)
                  \<and> n \<noteq> 0 \<and> commit sq tx = Inr ()
                  \<and> r = (case updatedRows of [] \<Rightarrow> None | first # _ \<Rightarrow> Some first))"
    by (simp add: run split: option.splits sum.splits if_splits prod.splits)
  have c5: "\<forall>e. snd (update sq model id' data) = Inl e \<longrightarrow>
               (\<exists>before.
                  (rollback sq tx = Inr ()
                   \<and> fst (update sq model id' data)
                       = before @ [Rollback tx,
                                   LogError (''Error updating record in '' @ name model
                                             @ '': '' @ message e)])
                  \<or> (\<exists>m. rollback sq tx = Inl m \<and> e = StoreError m
                          \<and> fst (update sq model id' data) = before @ [Rollback tx]))"
    by (cases "rollback sq tx")
       (auto simp: run split: option.splits sum.splits if_splits prod.splits)
  from c1 c2 c3 c4 c5 show ?thesis by (intro conjI)
qed

text \<open>
  The claim as the spec states it fails: the store reports zero updated rows and the
  rollback rejects, and what \<open>update\<close> throws is the rejection, not the "not found" error.
\<close>

theorem update_not_found_with_failing_rollback:
  "model_update example_model [(''title'', JStr ''RRB NTPC'')] (update_call_options 1 (JNum 9))
     = Inr (0, Some [])
   \<and> update example_sequelize_rollback_fails example_model (JNum 9)
       (Some [(''title'', JStr ''RRB NTPC'')])
     = ([Transaction,
         Update [(''title'', JStr ''RRB NTPC'')] (update_call_options 1 (JNum 9)),
         Rollback 1],
        Inl (StoreError ''connection lost''))"
  by (simp add: update_def io_defs example_defs example_sequelize_rollback_fails_def
        Object_keys_def)

theorem update_outcomes_witness:
  "snd (update example_sequelize example_model (JNum 9) (Some [(''title'', JStr ''RRB NTPC'')]))
     = Inl (Error ''JobUpdate with id 9 not found or no changes applied'')
   \<and> update example_sequelize example_model (JNum 2) (Some [(''title'', JStr ''RRB NTPC'')])
     = ([Transaction,
         Update [(''title'', JStr ''RRB NTPC'')] (update_call_options 1 (JNum 2)),
         Commit 1, LogInfo ''Updated record in JobUpdate with id 2''],
        Inr (Some [(''id'', JNum 2), (''title'', JStr ''RRB NTPC''),
                   (''category'', JStr ''results'')]))"
proof -
  have tx: "transaction example_sequelize = Inr 1"
    and rb: "rollback example_sequelize 1 = Inr ()"
    and cm: "commit example_sequelize 1 = Inr ()"
    by (simp_all add: example_sequelize_def)
  have zero: "model_update example_model [(''title'', JStr ''RRB NTPC'')]
                (update_call_options 1 (JNum 9)) = Inr (0, Some [])"
    by (simp add: example_defs)
  have one: "model_update example_model [(''title'', JStr ''RRB NTPC'')]
               (update_call_options 1 (JNum 2))
             = Inr (1, Some [[(''id'', JNum 2), (''title'', JStr ''RRB NTPC''),
                              (''category'', JStr ''results'')]])"
    by (simp add: example_defs)
  have nm: "name example_model = ''JobUpdate''"
    by (simp add: example_model_def)
  from update_outcomes [OF tx, of example_model "JNum 9" "Some [(''title'', JStr ''RRB NTPC'')]"]
    rb zero
  have thrown: "snd (update example_sequelize example_model (JNum 9)
               (Some [(''title'', JStr ''RRB NTPC'')]))
          = Inl (Error ''JobUpdate with id 9 not found or no changes applied'')"
    by (simp add: nm String_of_int_def)
  from update_outcomes [OF tx, of example_model "JNum 2" "Some [(''title'', JStr ''RRB NTPC'')]"]
  have "\<forall>d n updatedRows.
          Some [(''title'', JStr ''RRB NTPC'')] = Some d \<and> d \<noteq> []
          \<and> model_update example_model d (update_call_options 1 (JNum 2))
              = Inr (n, Some updatedRows)
          \<and> n \<noteq> 0 \<and> commit example_sequelize 1 = Inr ()
          \<longrightarrow> update example_sequelize example_model (JNum 2)
                  (Some [(''title'', JStr ''RRB NTPC'')])
                = ([Transaction, Update d (update_call_options 1 (JNum 2)), Commit 1,
                    LogInfo (''Updated record in '' @ name example_model @ '' with id ''
                             @ ToString (JNum 2))],
                   Inr (case updatedRows of [] \<Rightarrow> None | first # _ \<Rightarrow> Some first))"
    by blast
  with one cm
  have "update example_sequelize example_model (JNum 2)
                   (Some [(''title'', JStr ''RRB NTPC'')])
     = ([Transaction,
         Update [(''title'', JStr ''RRB NTPC'')] (update_call_options 1 (JNum 2)),
         Commit 1, LogInfo ''Updated record in JobUpdate with id 2''],
        Inr (Some [(''id'', JNum 2), (''title'', JStr ''RRB NTPC''),
                   (''category'', JStr ''results'')]))"
    by (simp add: nm String_of_int_def)
  with thrown show ?thesis by simp
qed

text \<open>
  Claim C7. \<open>delete\<close> throws its "not found or already deleted" error exactly when the
  store destroys zero rows for the id; when at least one row is destroyed it returns the
  string \<open>deleted\<close>; and whenever it throws, after the store call it has logged the
  error's message.
\<close>

theorem delete_not_found:
  "(snd (delete model id')
      = Inl (Error (name model @ '' with id '' @ ToString id'
                    @ '' not found or already deleted''))
    \<longleftrightarrow> destroy model \<lparr>de_where = [(Key ''id'', Value id')]\<rparr> = Inr 0)
   \<and> (\<forall>n. destroy model \<lparr>de_where = [(Key ''id'', Value id')]\<rparr> = Inr n \<and> 1 \<le> n
         \<longrightarrow> delete model id'
             = ([Destroy \<lparr>de_where = [(Key ''id'', Value id')]\<rparr>,
                 LogInfo (''Soft deleted record from '' @ name model @ '' with id ''
                          @ ToString id')],
                Inr ''deleted''))
   \<and> (\<forall>e. snd (delete model id') = Inl e
         \<longrightarrow> fst (delete model id')
             = [Destroy \<lparr>de_where = [(Key ''id'', Value id')]\<rparr>,
                LogError (''Error soft deleting record from '' @ name model @ '': ''
                          @ message e)])"
  by (cases "destroy model \<lparr>de_where = [(Key ''id'', Value id')]\<rparr>")
     (auto simp: delete_def io_defs)

theorem delete_not_found_witness:
  "snd (delete example_model (JNum 7))
     = Inl (Error ''JobUpdate with id 7 not found or already deleted'')
   \<and> fst (delete example_model (JNum 7))
     = [Destroy \<lparr>de_where = [(Key ''id'', Value (JNum 7))]\<rparr>,
        LogError ''Error soft deleting record from JobUpdate: JobUpdate with id 7 not found or already deleted'']
   \<and> delete example_model (JNum 1)
     = ([Destroy \<lparr>de_where = [(Key ''id'', Value (JNum 1))]\<rparr>,
         LogInfo ''Soft deleted record from JobUpdate with id 1''],
        Inr ''deleted'')"
proof -
  have zero: "destroy example_model \<lparr>de_where = [(Key ''id'', Value (JNum 7))]\<rparr> = Inr 0"
    and one: "destroy example_model \<lparr>de_where = [(Key ''id'', Value (JNum 1))]\<rparr> = Inr 1
              \<and> (1::int) \<le> 1"
    by (simp_all add: example_defs)
  have nm: "name example_model = ''JobUpdate''"
    by (simp add: example_model_def)
  from delete_not_found [of example_model "JNum 7"] zero
  have thrown: "snd (delete example_model (JNum 7))
                  = Inl (Error ''JobUpdate with id 7 not found or already deleted'')"
    by (simp add: nm String_of_int_def)
  with delete_not_found [of example_model "JNum 7"]
  have logged: "fst (delete example_model (JNum 7))
     = [Destroy \<lparr>de_where = [(Key ''id'', Value (JNum 7))]\<rparr>,
        LogError ''Error soft deleting record from JobUpdate: JobUpdate with id 7 not found or already deleted'']"
    by (simp add: nm)
  from delete_not_found [of example_model "JNum 1"] one
  have "delete example_model (JNum 1)
     = ([Destroy \<lparr>de_where = [(Key ''id'', Value (JNum 1))]\<rparr>,
         LogInfo ''Soft deleted record from JobUpdate with id 1''],
        Inr ''deleted'')"
    by (simp add: nm String_of_int_def)
  with thrown logged show ?thesis by simp
qed

text \<open>
  Claim C8. The router registers exactly one action for each method and path of the
  job-updates resource: \<open>GET /job-updates\<close> the get-all action, \<open>GET /job-updates/:id\<close>
  the get-by-id action, \<open>POST /job-updates\<close> the create action, \<open>PUT /job-updates/:id\<close>
  the update action and \<open>DELETE /job-updates/:id\<close> the delete action.
\<close>

theorem router_job_updates:
  "handlers GET ''/job-updates'' = [getAllJobUpdates]
   \<and> handlers GET ''/job-updates/:id'' = [getJobUpdateById]
   \<and> handlers POST ''/job-updates'' = [createJobUpdate]
   \<and> handlers PUT ''/job-updates/:id'' = [updateJobUpdate]
   \<and> handlers DELETE ''/job-updates/:id'' = [deleteJobUpdate]"
  by (simp add: handlers_def router_def)

text \<open>
  Claim C9. When the sort option is a non-empty string without a \<open>:\<close>, \<open>getAll\<close> issues
  no store call: the split leaves the direction \<open>undefined\<close>, \<open>toUpperCase\<close> on it raises
  a \<open>TypeError\<close>, and \<open>getAll\<close> logs it and throws it.
\<close>

theorem getAll_sort_without_colon:
  assumes "q_sort query = Some s" and "s \<noteq> []" and "CHR '':'' \<notin> set s"
  shows "getAll JSON_stringify model query
           = ([LogError (''Error reading records from '' @ name model
                         @ '': Cannot read properties of undefined (reading 'toUpperCase')'')],
              Inl (TypeError ''Cannot read properties of undefined (reading 'toUpperCase')''))"
  using assms by (simp add: getAll_def getAll_order_def split_no_separator io_defs Let_def)

theorem getAll_sort_without_colon_witness:
  "getAll example_stringify example_model (empty_query\<lparr>q_sort := Some ''title''\<rparr>)
     = ([LogError ''Error reading records from JobUpdate: Cannot read properties of undefined (reading 'toUpperCase')''],
        Inl (TypeError ''Cannot read properties of undefined (reading 'toUpperCase')''))"
proof -
  have s: "q_sort (empty_query\<lparr>q_sort := Some ''title''\<rparr>) = Some ''title''"
    and ne: "''title'' \<noteq> []" and nc: "CHR '':'' \<notin> set ''title''"
    by simp_all
  from getAll_sort_without_colon [OF s ne nc, of example_stringify example_model]
  show ?thesis by (simp add: example_model_def)
qed

text \<open>
  Claim C10, as amended. With a non-empty search term and a filter object, the \<open>where\<close>
  object of \<open>getAll\<close> holds the search disjunction under \<open>Op.or\<close> and, beside it, under
  every key of the filter other than \<open>__proto__\<close> the filter's value for that key, one
  property per key; for a filter with distinct keys, none of them \<open>__proto__\<close>, it is the
  disjunction followed by the filter's properties. No assignment of a filter key touches
  \<open>Op.or\<close>. When the sort option is absent, empty or contains a \<open>:\<close>, \<open>getAll\<close> passes
  this \<open>where\<close> object to the store.
\<close>

theorem getAll_filter_alongside_search:
  assumes "q_search query = Some s" and "s \<noteq> []" and "q_filter query = Some f"
  shows "map_of (getAll_where model query) Op_or = Some (Conditions (search_conditions model s))
         \<and> (\<forall>key. key \<noteq> ''__proto__'' \<longrightarrow>
                map_of (getAll_where model query) (Key key) = map_option Value (map_of f key))
         \<and> distinct (map fst (getAll_where model query))
         \<and> (distinct (map fst f) \<and> ''__proto__'' \<notin> fst ` set f \<longrightarrow>
              getAll_where model query =
                (Op_or, Conditions (search_conditions model s))
                # map (\<lambda>(k, v). (Key k, Value v)) f)
         \<and> (q_sort query = None \<or> q_sort query = Some []
              \<or> (\<exists>t. q_sort query = Some t \<and> CHR '':'' \<in> set t)
              \<longrightarrow> (\<exists>opts rest.
                     fst (getAll JSON_stringify model query) = FindAndCountAll opts # rest
                     \<and> fc_where opts = getAll_where model query))"
proof -
  have call: "\<exists>opts rest.
                fst (getAll JSON_stringify model query) = FindAndCountAll opts # rest
                \<and> fc_where opts = getAll_where model query"
    if "q_sort query = None \<or> q_sort query = Some []
        \<or> (\<exists>t. q_sort query = Some t \<and> CHR '':'' \<in> set t)"
  proof -
    from getAll_order_returns [OF that] obtain order
      where "getAll_order query = ([], Inr order)" by blast
    from getAll_run [OF this, of JSON_stringify model] show ?thesis
      by (cases "findAndCountAll model
                   \<lparr>fc_where = getAll_where model query,
                    fc_limit = (case q_limit query of None \<Rightarrow> 10 | Some l \<Rightarrow> l),
                    fc_offset = ((case q_page query of None \<Rightarrow> 1 | Some p \<Rightarrow> p) - 1)
                                * (case q_limit query of None \<Rightarrow> 10 | Some l \<Rightarrow> l),
                    fc_order = order, fc_paranoid = True\<rparr>") simp_all
  qed
  have keep: "filter (\<lambda>(k, v). k \<noteq> ''__proto__'') f = f" if "''__proto__'' \<notin> fst ` set f"
    using that by (force simp: filter_id_conv)
  from assms have "map_of (getAll_where model query) Op_or
                     = Some (Conditions (search_conditions model s))"
    and "\<forall>key. key \<noteq> ''__proto__'' \<longrightarrow>
           map_of (getAll_where model query) (Key key) = map_option Value (map_of f key)"
    and "distinct (map fst (getAll_where model query))"
    and "distinct (map fst f) \<and> ''__proto__'' \<notin> fst ` set f \<longrightarrow>
              getAll_where model query =
                (Op_or, Conditions (search_conditions model s))
                # map (\<lambda>(k, v). (Key k, Value v)) f"
    by (simp_all add: getAll_where_Op_or getAll_where_Key getAll_where_distinct
        getAll_where_object keep)
  with call show ?thesis by blast
qed

text \<open>
  The claim as the spec states it fails for a filter with an own key \<open>__proto__\<close>: its
  condition does not reach the \<open>where\<close> object, which holds the search disjunction alone.
\<close>

theorem filter_proto_key_dropped:
  "getAll_where example_model
     (empty_query\<lparr>q_search := Some ''SSC'', q_filter := Some [(''__proto__'', JStr ''results'')]\<rparr>)
     = [(Op_or, Conditions [(''title'', Op_like ''%SSC%''), (''category'', Op_like ''%SSC%'')])]
   \<and> hd (fst (getAll example_stringify example_model
                 (empty_query\<lparr>q_search := Some ''SSC'',
                               q_filter := Some [(''__proto__'', JStr ''results'')]\<rparr>)))
     = FindAndCountAll
         \<lparr>fc_where = [(Op_or, Conditions [(''title'', Op_like ''%SSC%''),
                                          (''category'', Op_like ''%SSC%'')])],
          fc_limit = 10, fc_offset = 0, fc_order = [], fc_paranoid = True\<rparr>"
proof -
  let ?q = "empty_query\<lparr>q_search := Some ''SSC'',
                          q_filter := Some [(''__proto__'', JStr ''results'')]\<rparr>"
  have w: "getAll_where example_model ?q
     = [(Op_or, Conditions [(''title'', Op_like ''%SSC%''), (''category'', Op_like ''%SSC%'')])]"
    by (simp add: getAll_where_def search_conditions_def example_model_def empty_query_def
        Let_def Object_keys_def where_assign_def)
  have ord: "getAll_order ?q = ([], Inr [])"
    by (simp add: getAll_order_def empty_query_def returns_def)
  show ?thesis
    by (simp add: getAll_first_call [OF ord] w) (simp add: empty_query_def)
qed

theorem getAll_filter_alongside_search_witness:
  "getAll_where example_model
     (empty_query\<lparr>q_search := Some ''SSC'', q_filter := Some [(''category'', JStr ''results'')]\<rparr>)
     = [(Op_or, Conditions [(''title'', Op_like ''%SSC%''), (''category'', Op_like ''%SSC%'')]),
        (Key ''category'', Value (JStr ''results''))]
   \<and> fst (getAll example_stringify example_model
             (empty_query\<lparr>q_search := Some ''SSC'',
                           q_filter := Some [(''category'', JStr ''results'')]\<rparr>)) \<noteq> []
   \<and> hd (fst (getAll example_stringify example_model
                 (empty_query\<lparr>q_search := Some ''SSC'',
                               q_filter := Some [(''category'', JStr ''results'')]\<rparr>)))
     = FindAndCountAll
         \<lparr>fc_where = [(Op_or, Conditions [(''title'', Op_like ''%SSC%''),
                                          (''category'', Op_like ''%SSC%'')]),
                       (Key ''category'', Value (JStr ''results''))],
          fc_limit = 10, fc_offset = 0, fc_order = [], fc_paranoid = True\<rparr>"
proof -
  let ?q = "empty_query\<lparr>q_search := Some ''SSC'',
                          q_filter := Some [(''category'', JStr ''results'')]\<rparr>"
  have s: "q_search ?q = Some ''SSC''"
    and ne: "''SSC'' \<noteq> []"
    and f: "q_filter ?q = Some [(''category'', JStr ''results'')]"
    and d: "distinct (map fst [(''category'', JStr ''results'')])
            \<and> ''__proto__'' \<notin> fst ` set [(''category'', JStr ''results'')]"
    and srt: "q_sort ?q = None \<or> q_sort ?q = Some []
              \<or> (\<exists>t. q_sort ?q = Some t \<and> CHR '':'' \<in> set t)"
    by (simp_all add: empty_query_def)
  have sc: "search_conditions example_model ''SSC''
              = [(''title'', Op_like ''%SSC%''), (''category'', Op_like ''%SSC%'')]"
    by (simp add: search_conditions_def example_model_def)
  have ord: "getAll_order ?q = ([], Inr [])"
    by (simp add: getAll_order_def empty_query_def returns_def)
  note t = getAll_filter_alongside_search [OF s ne f, of example_model example_stringify]
  from t d
  have "getAll_where example_model ?q
        = (Op_or, Conditions (search_conditions example_model ''SSC''))
          # map (\<lambda>(k, v). (Key k, Value v)) [(''category'', JStr ''results'')]"
    by blast
  then have w: "getAll_where example_model ?q
     = [(Op_or, Conditions [(''title'', Op_like ''%SSC%''), (''category'', Op_like ''%SSC%'')]),
        (Key ''category'', Value (JStr ''results''))]"
    by (simp add: sc)
  from t srt obtain opts rest
    where tr: "fst (getAll example_stringify example_model ?q) = FindAndCountAll opts # rest"
    by blast
  then have called: "fst (getAll example_stringify example_model ?q) \<noteq> []"
    by simp
  have first: "hd (fst (getAll example_stringify example_model ?q))
     = FindAndCountAll
         \<lparr>fc_where = [(Op_or, Conditions [(''title'', Op_like ''%SSC%''),
                                          (''category'', Op_like ''%SSC%'')]),
                       (Key ''category'', Value (JStr ''results''))],
          fc_limit = 10, fc_offset = 0, fc_order = [], fc_paranoid = True\<rparr>"
    by (simp add: getAll_first_call [OF ord] w) (simp add: empty_query_def)
  from w called first show ?thesis by (intro conjI)
qed

end
